theory Spec2Isabelle
  imports Main "HOL-Library.Word"
begin

section \<open>The textarea editor of textcomplete (src/textarea.js)\<close>

text \<open>
  The class \<open>Textarea\<close> wraps one \<open>HTMLTextAreaElement\<close>. It reads and assigns a
  handful of the element's properties, registers three event listeners on it and
  translates the native events into the notifications of the \<open>Editor\<close> base class.
  The embedding keeps the element objects in a store indexed by references, because
  the element is shared with the page: the adapter holds a reference in \<open>this.el\<close>
  and drops it in \<open>finalize\<close>, while the page keeps dispatching events on the object.
\<close>

subsection \<open>JavaScript values\<close>

text \<open>
  A JavaScript string is a sequence of UTF-16 code units, and \<open>length\<close> counts code
  units. \<open>ascii\<close> writes a string literal of ASCII characters as such a sequence.
\<close>

type_synonym code_unit = "16 word"
type_synonym jsstring = "code_unit list"

definition ascii :: "string \<Rightarrow> jsstring" where
  "ascii cs = map (\<lambda>c. of_nat (of_char c)) cs"

text \<open>
  \<open>String.prototype.substring(start, end)\<close> for non-negative integer arguments: both
  positions are clamped to the length, swapped when out of order, and an omitted
  \<open>end\<close> (here \<open>None\<close>) stands for the length.
\<close>

definition substring :: "'c list \<Rightarrow> nat \<Rightarrow> nat option \<Rightarrow> 'c list" where
  "substring str intStart endArg =
     (let len = length str;
          intEnd = (case endArg of None \<Rightarrow> len | Some e \<Rightarrow> e);
          finalStart = min intStart len;
          finalEnd = min intEnd len;
          lo = min finalStart finalEnd;
          hi = max finalStart finalEnd
      in take (hi - lo) (drop lo str))"

text \<open>Reading a property of \<open>undefined\<close> throws a \<open>TypeError\<close>.\<close>

datatype js_error = TypeError

subsection \<open>The element and the state\<close>

text \<open>
  \<open>CALLBACK_METHODS\<close>: the constructor replaces each of the three methods by its
  bound version once, so the function object given to \<open>addEventListener\<close> is the one
  given to \<open>removeEventListener\<close>. \<open>Bound m\<close> is that function object; \<open>Foreign n\<close>
  is any other function the page has registered on the element.
\<close>

datatype callback = OnInput | OnKeydown | OnKeyup

datatype listener = Bound callback | Foreign nat

text \<open>
  The properties of the element that the class touches. Numbers (pixel lengths) are
  of an arbitrary type \<open>'n\<close>; the offsets in the text are non-negative integers.
  \<open>value\<close> is what the getter returns. \<open>dir\<close> is the string the property \<open>el.dir\<close>
  reads. \<open>direction\<close> is the direction the text of the element runs in, which can
  come from \<open>dir\<close>, from an ancestor, from \<open>dir="auto"\<close> or from a style rule; the
  class never reads it.
\<close>

datatype text_direction = Ltr | Rtl

record 'n html_textarea =
  "value" :: jsstring
  selectionStart :: nat
  selectionEnd :: nat
  dir :: string
  direction :: text_direction
  scrollTop :: 'n
  scrollLeft :: 'n
  focused :: bool
  listeners :: "(string \<times> listener) list"

text \<open>The notifications of \<open>Editor\<close>: \<open>change\<close>, \<open>move\<close> with its code, \<open>enter\<close>, \<open>esc\<close>.\<close>

datatype notification = Change | Move string | Enter | Esc

type_synonym ref = nat

text \<open>
  The state: the element objects of the page, the two fields of the \<open>Textarea\<close>
  instance (\<open>el\<close> is \<open>None\<close> once \<open>delete this.el\<close> has run), and the notifications
  delivered so far to the listeners of the editor, oldest first.
\<close>

record 'n state =
  elements :: "ref \<Rightarrow> 'n html_textarea"
  el :: "ref option"
  isIE9 :: bool
  emitted :: "notification list"

text \<open>
  A method returns its result with the state it leaves, or throws: then the error comes
  with the state at the throw, since what has been assigned before stays assigned.
\<close>

type_synonym ('a, 'n) result = "(js_error \<times> 'n state) + ('a \<times> 'n state)"

definition update_el :: "ref \<Rightarrow> ('n html_textarea \<Rightarrow> 'n html_textarea) \<Rightarrow> 'n state \<Rightarrow> 'n state" where
  "update_el r f s = s\<lparr>elements := (elements s)(r := f (elements s r))\<rparr>"

subsection \<open>Reading the text around the cursor\<close>

text \<open>
  \<open>getBeforeCursor() { return this.el.value.substring(0, this.el.selectionEnd); }\<close>
  and
  \<open>getAfterCursor() { return this.el.value.substring(this.el.selectionEnd); }\<close>.
  With \<open>this.el\<close> deleted, reading \<open>this.el.value\<close> throws before anything is done.
\<close>

definition getBeforeCursor :: "'n state \<Rightarrow> (jsstring, 'n) result" where
  "getBeforeCursor s =
     (case el s of
        None \<Rightarrow> Inl (TypeError, s)
      | Some r \<Rightarrow> Inr (substring (value (elements s r)) 0 (Some (selectionEnd (elements s r))), s))"

definition getAfterCursor :: "'n state \<Rightarrow> (jsstring, 'n) result" where
  "getAfterCursor s =
     (case el s of
        None \<Rightarrow> Inl (TypeError, s)
      | Some r \<Rightarrow> Inr (substring (value (elements s r)) (selectionEnd (elements s r)) None, s))"

subsection \<open>Listeners, focus\<close>

text \<open>
  The element keeps its listeners in registration order. \<open>addEventListener\<close> does
  not register the same function twice for the same event type,
  \<open>removeEventListener\<close> takes the registration out, and \<open>focus()\<close> gives the
  element the focus.
\<close>

definition addEventListener :: "string \<Rightarrow> listener \<Rightarrow> 'n html_textarea \<Rightarrow> 'n html_textarea" where
  "addEventListener ty h e =
     e\<lparr>listeners := (if (ty, h) \<in> set (listeners e) then listeners e else listeners e @ [(ty, h)])\<rparr>"

definition removeEventListener :: "string \<Rightarrow> listener \<Rightarrow> 'n html_textarea \<Rightarrow> 'n html_textarea" where
  "removeEventListener ty h e = e\<lparr>listeners := remove1 (ty, h) (listeners e)\<rparr>"

definition focus :: "'n html_textarea \<Rightarrow> 'n html_textarea" where
  "focus e = e\<lparr>focused := True\<rparr>"

subsection \<open>Assigning the value and the selection\<close>

text \<open>
  A textarea normalises the newlines of the value it is given: every CR LF pair and
  every other CR (code unit 13) becomes one LF (code unit 10).
\<close>

fun normalize_newlines :: "jsstring \<Rightarrow> jsstring" where
  "normalize_newlines [] = []"
| "normalize_newlines [c] = [if c = 13 then 10 else c]"
| "normalize_newlines (c # d # cs) =
     (if c = 13 \<and> d = 10 then 10 # normalize_newlines cs
      else if c = 13 then 10 # normalize_newlines (d # cs)
      else c # normalize_newlines (d # cs))"

text \<open>
  \<open>el.value = v\<close>: the element takes the normalised text, and when that differs from
  the text it had, the cursor moves to its end.
\<close>

definition set_value :: "jsstring \<Rightarrow> 'n html_textarea \<Rightarrow> 'n html_textarea" where
  "set_value v e =
     (let new = normalize_newlines v
      in if new \<noteq> value e
         then e\<lparr>value := new, selectionStart := length new, selectionEnd := length new\<rparr>
         else e)"

text \<open>
  Setting the selection range: both offsets are clamped to the length of the text,
  and an end that is not beyond the start collapses the selection at the end.
\<close>

definition setSelectionRange :: "nat \<Rightarrow> nat \<Rightarrow> 'n html_textarea \<Rightarrow> 'n html_textarea" where
  "setSelectionRange start stop e =
     (let len = length (value e);
          start1 = min start len;
          stop1 = min stop len
      in if stop1 \<le> start1 then e\<lparr>selectionStart := stop1, selectionEnd := stop1\<rparr>
         else e\<lparr>selectionStart := start1, selectionEnd := stop1\<rparr>)"

text \<open>
  \<open>el.selectionEnd = n\<close> sets the range from the current start to \<open>n\<close>;
  \<open>el.selectionStart = n\<close> sets the range from \<open>n\<close> to the current end, or to \<open>n\<close> when
  the current end is before it.
\<close>

definition set_selectionEnd :: "nat \<Rightarrow> 'n html_textarea \<Rightarrow> 'n html_textarea" where
  "set_selectionEnd n e = setSelectionRange (selectionStart e) n e"

definition set_selectionStart :: "nat \<Rightarrow> 'n html_textarea \<Rightarrow> 'n html_textarea" where
  "set_selectionStart n e =
     setSelectionRange n (if selectionEnd e < n then n else selectionEnd e) e"

subsection \<open>What the class imports\<close>

text \<open>
  \<open>{top, left}\<close> objects, the root element of the document, and a native event: the
  data \<open>'k\<close> it carries (key code, modifiers) and its canceled flag, which
  \<open>preventDefault()\<close> sets.
\<close>

record 'n coords =
  top_px :: 'n
  left_px :: 'n

record 'n document_element =
  clientWidth :: 'n

record 'k native_event =
  key :: 'k
  canceled :: bool

definition preventDefault :: "'k native_event \<Rightarrow> 'k native_event" where
  "preventDefault e = e\<lparr>canceled := True\<rparr>"

text \<open>
  The functions that \<open>textarea.js\<close> imports and that are not part of it are
  parameters: \<open>getIEVersion\<close> and \<open>calculateElementOffset\<close> of \<open>./utils\<close>,
  \<open>getLineHeight\<close> of the package line-height, \<open>getCaretCoordinates\<close> of the package
  textarea-caret, the global \<open>document.documentElement\<close> (\<open>None\<close> when the document
  has no root), the key decoder \<open>getCode\<close> inherited from \<open>Editor\<close>, and \<open>handled\<close>:
  whether the listeners of the editor call \<open>preventDefault()\<close> on a notification
  they are given. The measuring functions read the element and return a number.
\<close>

record ('n, 'k) env =
  getIEVersion :: "nat option"
  calculateElementOffset :: "'n html_textarea \<Rightarrow> 'n coords"
  getLineHeight :: "'n html_textarea \<Rightarrow> 'n"
  getCaretCoordinates :: "'n html_textarea \<Rightarrow> nat \<Rightarrow> 'n coords"
  documentElement :: "'n document_element option"
  getCode :: "'k \<Rightarrow> string"
  handled :: "notification \<Rightarrow> bool"

text \<open>
  The \<open>replace\<close> method of a \<open>SearchResult\<close>: given the text before and after the
  cursor it returns the array of the two new parts, or nothing.
\<close>

type_synonym search_result = "jsstring \<Rightarrow> jsstring \<Rightarrow> (jsstring \<times> jsstring) option"

subsection \<open>The methods inherited from Editor\<close>

text \<open>The event object an emitting method returns to its caller.\<close>

record custom_event =
  notification :: notification
  defaultPrevented :: bool

text \<open>
  Modelled from the spec: \<open>./editor\<close> is not among the sources. The spec has the
  editor deliver each notification (\<open>change\<close>, \<open>move(direction)\<close>, \<open>enter\<close>, \<open>esc\<close>) to
  the listeners of the engine, with a default-prevented flag that the adapter checks
  after the emission.
\<close>

definition emit :: "('n, 'k) env \<Rightarrow> notification \<Rightarrow> 'n state \<Rightarrow> custom_event \<times> 'n state" where
  "emit env n s =
     (\<lparr>notification = n, defaultPrevented = handled env n\<rparr>, s\<lparr>emitted := emitted s @ [n]\<rparr>)"

text \<open>Modelled from the spec: \<open>emitChangeEvent\<close> of \<open>Editor\<close> delivers \<open>change\<close>.\<close>

definition emitChangeEvent :: "('n, 'k) env \<Rightarrow> 'n state \<Rightarrow> custom_event \<times> 'n state" where
  "emitChangeEvent env s = emit env Change s"

text \<open>
  Modelled from the spec: \<open>emitMoveEvent\<close> of \<open>Editor\<close> delivers \<open>move\<close> with the
  direction it is given.
\<close>

definition emitMoveEvent :: "('n, 'k) env \<Rightarrow> string \<Rightarrow> 'n state \<Rightarrow> custom_event \<times> 'n state" where
  "emitMoveEvent env code s = emit env (Move code) s"

text \<open>Modelled from the spec: \<open>emitEnterEvent\<close> of \<open>Editor\<close> delivers \<open>enter\<close>.\<close>

definition emitEnterEvent :: "('n, 'k) env \<Rightarrow> 'n state \<Rightarrow> custom_event \<times> 'n state" where
  "emitEnterEvent env s = emit env Enter s"

text \<open>Modelled from the spec: \<open>emitEscEvent\<close> of \<open>Editor\<close> delivers \<open>esc\<close>.\<close>

definition emitEscEvent :: "('n, 'k) env \<Rightarrow> 'n state \<Rightarrow> custom_event \<times> 'n state" where
  "emitEscEvent env s = emit env Esc s"

text \<open>
  Modelled from the spec: \<open>finalize\<close> of \<open>Editor\<close>, called as \<open>super.finalize()\<close>. The
  spec gives teardown two effects only, both of the subclass, so the inherited part
  leaves the state as it is.
\<close>

definition super_finalize :: "'n state \<Rightarrow> 'n state" where
  "super_finalize s = s"

subsection \<open>Listening\<close>

text \<open>
  \<open>startListening\<close> and \<open>stopListening\<close>: three calls on \<open>this.el\<close>, for \<open>'input'\<close>,
  \<open>'keydown'\<close> and \<open>'keyup'\<close> in this order.
\<close>

definition startListening :: "'n state \<Rightarrow> (unit, 'n) result" where
  "startListening s =
     (case el s of
        None \<Rightarrow> Inl (TypeError, s)
      | Some r \<Rightarrow>
          Inr ((), update_el r (addEventListener ''keyup'' (Bound OnKeyup))
                    (update_el r (addEventListener ''keydown'' (Bound OnKeydown))
                      (update_el r (addEventListener ''input'' (Bound OnInput)) s))))"

definition stopListening :: "'n state \<Rightarrow> (unit, 'n) result" where
  "stopListening s =
     (case el s of
        None \<Rightarrow> Inl (TypeError, s)
      | Some r \<Rightarrow>
          Inr ((), update_el r (removeEventListener ''keyup'' (Bound OnKeyup))
                    (update_el r (removeEventListener ''keydown'' (Bound OnKeydown))
                      (update_el r (removeEventListener ''input'' (Bound OnInput)) s))))"

text \<open>
  The constructor stores the element and the browser flag, binds the callbacks (the
  \<open>Bound\<close> function objects exist from here on) and starts listening.
\<close>

definition constructor :: "('n, 'k) env \<Rightarrow> ref \<Rightarrow> 'n state \<Rightarrow> (unit, 'n) result" where
  "constructor env r s = startListening (s\<lparr>el := Some r, isIE9 := (getIEVersion env = Some 9)\<rparr>)"

text \<open>\<open>finalize\<close>: \<open>super.finalize(); this.stopListening(); delete this.el; return this;\<close>\<close>

definition finalize :: "'n state \<Rightarrow> (unit, 'n) result" where
  "finalize s =
     (case stopListening (super_finalize s) of
        Inl err \<Rightarrow> Inl err
      | Inr (_, s1) \<Rightarrow> Inr ((), s1\<lparr>el := None\<rparr>))"

subsection \<open>Applying a search result\<close>

text \<open>
  The two arguments of \<open>replace\<close> are evaluated left to right. The chained assignment
  \<open>this.el.selectionStart = this.el.selectionEnd = replace[0].length\<close> assigns
  \<open>selectionEnd\<close> first.
\<close>

definition applySearchResult :: "search_result \<Rightarrow> 'n state \<Rightarrow> (unit, 'n) result" where
  "applySearchResult searchResult s =
     (case getBeforeCursor s of
        Inl err \<Rightarrow> Inl err
      | Inr (before, s1) \<Rightarrow>
     (case getAfterCursor s1 of
        Inl err \<Rightarrow> Inl err
      | Inr (after, s2) \<Rightarrow>
     (let replace = searchResult before after in
      case el s2 of
        None \<Rightarrow> Inl (TypeError, s2)
      | Some r \<Rightarrow>
          (let s3 = (case replace of
                       Some (p, q) \<Rightarrow>
                         update_el r (set_selectionStart (length p))
                           (update_el r (set_selectionEnd (length p))
                             (update_el r (set_value (p @ q)) s2))
                     | None \<Rightarrow> s2)
           in Inr ((), update_el r focus s3)))))"

subsection \<open>The position of the cursor on the screen\<close>

definition getElScroll :: "'n state \<Rightarrow> ('n coords, 'n) result" where
  "getElScroll s =
     (case el s of
        None \<Rightarrow> Inl (TypeError, s)
      | Some r \<Rightarrow> Inr (\<lparr>top_px = scrollTop (elements s r), left_px = scrollLeft (elements s r)\<rparr>, s))"

definition getCursorPosition :: "('n, 'k) env \<Rightarrow> 'n state \<Rightarrow> ('n coords, 'n) result" where
  "getCursorPosition env s =
     (case el s of
        None \<Rightarrow> Inl (TypeError, s)
      | Some r \<Rightarrow> Inr (getCaretCoordinates env (elements s r) (selectionEnd (elements s r)), s))"

text \<open>
  The object \<open>getCursorOffset\<close> returns has \<open>top\<close>, \<open>lineHeight\<close> and either \<open>left\<close> or
  \<open>right\<close>; the method returns nothing (\<open>None\<close>) when it falls through both branches.
\<close>

datatype 'n cursor_offset =
    TopLeft 'n 'n 'n
  | TopRight 'n 'n 'n

text \<open>
  The arithmetic is written as the source has it, left to right, over any number
  type with an addition and a subtraction. With \<open>this.el\<close> deleted the first
  statement already throws: \<open>calculateElementOffset\<close> reads its argument.
\<close>

definition getCursorOffset ::
  "('n::{plus,minus}, 'k) env \<Rightarrow> 'n state \<Rightarrow> ('n cursor_offset option, 'n) result" where
  "getCursorOffset env s =
     (case el s of
        None \<Rightarrow> Inl (TypeError, s)
      | Some r \<Rightarrow>
     (let elOffset = calculateElementOffset env (elements s r) in
      case getElScroll s of
        Inl err \<Rightarrow> Inl err
      | Inr (elScroll, s1) \<Rightarrow>
     (case getCursorPosition env s1 of
        Inl err \<Rightarrow> Inl err
      | Inr (cursorPosition, s2) \<Rightarrow>
     (case el s2 of
        None \<Rightarrow> Inl (TypeError, s2)
      | Some r2 \<Rightarrow>
     (let lineHeight = getLineHeight env (elements s2 r2);
          top' = top_px elOffset - top_px elScroll + top_px cursorPosition + lineHeight;
          left' = left_px elOffset - left_px elScroll + left_px cursorPosition
      in if dir (elements s2 r2) \<noteq> ''rtl'' then Inr (Some (TopLeft top' left' lineHeight), s2)
         else (case documentElement env of
                 Some root \<Rightarrow> Inr (Some (TopRight top' (clientWidth root - left') lineHeight), s2)
               | None \<Rightarrow> Inr (None, s2)))))))"

subsection \<open>The three callbacks\<close>

definition onInput :: "('n, 'k) env \<Rightarrow> 'k native_event \<Rightarrow> 'n state \<Rightarrow> 'k native_event \<times> 'n state" where
  "onInput env e s = (e, snd (emitChangeEvent env s))"

text \<open>\<open>event\<close> stays \<open>undefined\<close> (\<open>None\<close>) when no branch assigns it.\<close>

definition onKeydown :: "('n, 'k) env \<Rightarrow> 'k native_event \<Rightarrow> 'n state \<Rightarrow> 'k native_event \<times> 'n state" where
  "onKeydown env e s =
     (let code = getCode env (key e);
          (event, s1) =
            (if code = ''UP'' \<or> code = ''DOWN'' then map_prod Some id (emitMoveEvent env code s)
             else if code = ''ENTER'' then map_prod Some id (emitEnterEvent env s)
             else if code = ''ESC'' then map_prod Some id (emitEscEvent env s)
             else (None, s))
      in case event of
           Some ev \<Rightarrow> if defaultPrevented ev then (preventDefault e, s1) else (e, s1)
         | None \<Rightarrow> (e, s1))"

definition onKeyup :: "('n, 'k) env \<Rightarrow> 'k native_event \<Rightarrow> 'n state \<Rightarrow> 'k native_event \<times> 'n state" where
  "onKeyup env e s =
     (let code = getCode env (key e)
      in if code = ''BS'' \<and> isIE9 s then (e, snd (emitChangeEvent env s)) else (e, s))"

subsection \<open>Native events\<close>

text \<open>
  Dispatching an event of type \<open>ty\<close> on the element \<open>r\<close> calls the listeners registered
  for \<open>ty\<close>, in registration order. A bound callback runs on the \<open>Textarea\<close> instance;
  a foreign function is not this adapter's and emits nothing.
\<close>

definition invoke :: "('n, 'k) env \<Rightarrow> listener \<Rightarrow> 'k native_event \<Rightarrow> 'n state \<Rightarrow> 'k native_event \<times> 'n state" where
  "invoke env h e s =
     (case h of
        Bound OnInput \<Rightarrow> onInput env e s
      | Bound OnKeydown \<Rightarrow> onKeydown env e s
      | Bound OnKeyup \<Rightarrow> onKeyup env e s
      | Foreign _ \<Rightarrow> (e, s))"

definition dispatchEvent ::
  "('n, 'k) env \<Rightarrow> ref \<Rightarrow> string \<Rightarrow> 'k native_event \<Rightarrow> 'n state \<Rightarrow> 'k native_event \<times> 'n state" where
  "dispatchEvent env r ty e s =
     foldl (\<lambda>(e1, s1) h. invoke env h e1 s1) (e, s)
       (map snd (filter (\<lambda>(t, h). t = ty) (listeners (elements s r))))"

definition dispatchAll ::
  "('n, 'k) env \<Rightarrow> ref \<Rightarrow> (string \<times> 'k native_event) list \<Rightarrow> 'n state \<Rightarrow> 'n state" where
  "dispatchAll env r evs s = foldl (\<lambda>s1 (ty, e). snd (dispatchEvent env r ty e s1)) s evs"

text \<open>Calling a method on the state an earlier call has left, unless that call threw.\<close>

definition andThen :: "'e + ('a \<times> 's) \<Rightarrow> ('s \<Rightarrow> 'e + ('b \<times> 's)) \<Rightarrow> 'e + ('b \<times> 's)" where
  "andThen m f = (case m of Inl err \<Rightarrow> Inl err | Inr (_, s) \<Rightarrow> f s)"

subsection \<open>A page to run the adapter on\<close>

text \<open>
  One textarea holding \<open>hello\<close>, its characters 2 to 5 selected, on which the page
  has a click listener of its own; a browser that is not Internet Explorer, with a root
  element 1024 pixels wide and characters 8 pixels wide; key codes decoded as the
  usual ones; listeners of the editor that handle every notification except
  \<open>change\<close>.
\<close>

definition example_el :: "int html_textarea" where
  "example_el =
     \<lparr>value = ascii ''hello'', selectionStart = 2, selectionEnd = 5, dir = [],
      direction = Ltr, scrollTop = 30, scrollLeft = 0, focused = False, listeners = [(''click'', Foreign 0)]\<rparr>"

definition example_page :: "int state" where
  "example_page = \<lparr>elements = (\<lambda>_. example_el), el = None, isIE9 = False, emitted = []\<rparr>"

definition example_env :: "(int, nat) env" where
  "example_env =
     \<lparr>getIEVersion = None,
      calculateElementOffset = (\<lambda>_. \<lparr>top_px = 100, left_px = 50\<rparr>),
      getLineHeight = (\<lambda>_. 20),
      getCaretCoordinates = (\<lambda>_ i. \<lparr>top_px = 4, left_px = 8 * int i\<rparr>),
      documentElement = Some \<lparr>clientWidth = 1024\<rparr>,
      getCode = (\<lambda>k. if k = 38 then ''UP'' else if k = 40 then ''DOWN''
                     else if k = 13 then ''ENTER'' else if k = 27 then ''ESC''
                     else if k = 8 then ''BS'' else ''OTHER''),
      handled = (\<lambda>n. n \<noteq> Change)\<rparr>"

text \<open>The state once a \<open>Textarea\<close> has been constructed on element 0 of that page.\<close>

definition example_state :: "int state" where
  "example_state =
     \<lparr>elements = (\<lambda>_. example_el)
        (0 := example_el\<lparr>listeners :=
                [(''click'', Foreign 0), (''input'', Bound OnInput),
                 (''keydown'', Bound OnKeydown), (''keyup'', Bound OnKeyup)]\<rparr>),
      el = Some 0, isIE9 = False, emitted = []\<rparr>"

text \<open>
  The same state with the text of the element running right to left although its
  \<open>dir\<close> property is empty, as under \<open><div dir="rtl">\<close>.
\<close>

definition example_rtl_inherited :: "int state" where
  "example_rtl_inherited =
     example_state\<lparr>elements := (elements example_state)
        (0 := (elements example_state 0)\<lparr>direction := Rtl\<rparr>)\<rparr>"

text \<open>A search result that replaces the text by two Windows line ends.\<close>

definition crlf_result :: search_result where
  "crlf_result before after = Some ([13, 10, 13, 10], [])"

section \<open>Properties\<close>

subsection \<open>Substrings and the cursor texts\<close>

lemma substring_prefix: "substring v 0 (Some i) = take i v"
  by (simp add: substring_def Let_def min_def)

lemma substring_suffix: "substring v i None = drop i v"
  by (simp add: substring_def Let_def min_def max_def)

lemma cursor_texts:
  "el s = Some r \<Longrightarrow>
     getBeforeCursor s = Inr (take (selectionEnd (elements s r)) (value (elements s r)), s)
   \<and> getAfterCursor s = Inr (drop (selectionEnd (elements s r)) (value (elements s r)), s)"
  by (simp add: getBeforeCursor_def getAfterCursor_def substring_prefix substring_suffix)

lemma emit_effect:
  "emit env n s = (\<lparr>notification = n, defaultPrevented = handled env n\<rparr>, s\<lparr>emitted := emitted s @ [n]\<rparr>)"
  by (simp add: emit_def)

lemma example_state_constructed: "constructor example_env 0 example_page = Inr ((), example_state)"
  by (simp add: constructor_def startListening_def update_el_def addEventListener_def
      example_state_def example_page_def example_el_def example_env_def)

subsection \<open>The text before and after the cursor\<close>

text \<open>
  C2: for an element with value \<open>v\<close> and selection end \<open>i\<close>, \<open>getBeforeCursor\<close> returns
  the first \<open>i\<close> code units of \<open>v\<close> (all of \<open>v\<close> when \<open>i\<close> exceeds its length),
  \<open>getAfterCursor\<close> returns the rest, the two concatenated are \<open>v\<close>, and both results
  are the same whatever the selection start \<open>k\<close> is.
\<close>

theorem cursor_split:
  assumes "el s = Some r"
    and "value (elements s r) = v"
    and "selectionEnd (elements s r) = i"
  shows "\<exists>b a. getBeforeCursor s = Inr (b, s) \<and> getAfterCursor s = Inr (a, s)
           \<and> b @ a = v \<and> b = take i v
           \<and> (\<forall>k. map_sum id fst (getBeforeCursor (update_el r (\<lambda>e. e\<lparr>selectionStart := k\<rparr>) s)) = Inr b
                 \<and> map_sum id fst (getAfterCursor (update_el r (\<lambda>e. e\<lparr>selectionStart := k\<rparr>) s)) = Inr a)"
  using assms
  by (simp add: getBeforeCursor_def getAfterCursor_def update_el_def
      substring_prefix substring_suffix)

theorem cursor_split_witness:
  "getBeforeCursor (update_el 0 (\<lambda>e. e\<lparr>selectionEnd := 2\<rparr>) example_state)
     = Inr (ascii ''he'', update_el 0 (\<lambda>e. e\<lparr>selectionEnd := 2\<rparr>) example_state)
   \<and> getAfterCursor (update_el 0 (\<lambda>e. e\<lparr>selectionEnd := 2\<rparr>) example_state)
     = Inr (ascii ''llo'', update_el 0 (\<lambda>e. e\<lparr>selectionEnd := 2\<rparr>) example_state)"
proof -
  let ?s = "update_el 0 (\<lambda>e. e\<lparr>selectionEnd := 2\<rparr>) example_state"
  have h1: "el ?s = Some 0"
    by (simp add: update_el_def example_state_def example_page_def)
  have h2: "value (elements ?s 0) = ascii ''hello''"
    by (simp add: update_el_def example_state_def example_page_def example_el_def)
  have h3: "selectionEnd (elements ?s 0) = 2"
    by (simp add: update_el_def example_state_def example_page_def example_el_def)
  from cursor_split [OF h1 h2 h3] show ?thesis
    by (auto simp add: ascii_def)
qed

subsection \<open>Applying a search result\<close>

lemma normalize_newlines_plain: "13 \<notin> set xs \<Longrightarrow> normalize_newlines xs = xs"
  by (induction xs rule: normalize_newlines.induct) auto

lemma set_value_text: "value (set_value v e) = normalize_newlines v"
  by (simp add: set_value_def Let_def)

lemma caret_assignments:
  "value (set_selectionStart n (set_selectionEnd n e)) = value e
   \<and> selectionStart (set_selectionStart n (set_selectionEnd n e)) = min n (length (value e))
   \<and> selectionEnd (set_selectionStart n (set_selectionEnd n e)) = min n (length (value e))"
  by (simp add: set_selectionStart_def set_selectionEnd_def setSelectionRange_def Let_def min_def)

lemma applySearchResult_run:
  assumes "el s = Some r"
    and "searchResult (take (selectionEnd (elements s r)) (value (elements s r)))
                      (drop (selectionEnd (elements s r)) (value (elements s r))) = Some (p, q)"
  shows "applySearchResult searchResult s =
           Inr ((), s\<lparr>elements := (elements s)
                  (r := focus (set_selectionStart (length p) (set_selectionEnd (length p)
                          (set_value (p @ q) (elements s r)))))\<rparr>)"
  using assms by (simp add: applySearchResult_def cursor_texts update_el_def)

text \<open>
  C1, as the element has it: when \<open>replace\<close>, called with the text before and the
  text after the cursor, returns the pair \<open>(p, q)\<close>, \<open>applySearchResult\<close> returns
  normally and leaves the element with the text \<open>p + q\<close>, newlines normalised, and
  with both \<open>selectionStart\<close> and \<open>selectionEnd\<close> at the length of \<open>p\<close> or at the end of
  that text if it is shorter. When \<open>p + q\<close> has no carriage return, that is the value
  \<open>p + q\<close> and the offset \<open>p.length\<close>.
\<close>

theorem applySearchResult_replaces:
  assumes "el s = Some r"
    and "searchResult (take (selectionEnd (elements s r)) (value (elements s r)))
                      (drop (selectionEnd (elements s r)) (value (elements s r))) = Some (p, q)"
  shows "\<exists>s'. applySearchResult searchResult s = Inr ((), s')
           \<and> value (elements s' r) = normalize_newlines (p @ q)
           \<and> selectionStart (elements s' r) = min (length p) (length (normalize_newlines (p @ q)))
           \<and> selectionEnd (elements s' r) = min (length p) (length (normalize_newlines (p @ q)))
           \<and> (13 \<notin> set (p @ q) \<longrightarrow>
                 value (elements s' r) = p @ q
               \<and> selectionStart (elements s' r) = length p
               \<and> selectionEnd (elements s' r) = length p)"
proof -
  let ?e = "focus (set_selectionStart (length p) (set_selectionEnd (length p)
              (set_value (p @ q) (elements s r))))"
  have run: "applySearchResult searchResult s = Inr ((), s\<lparr>elements := (elements s)(r := ?e)\<rparr>)"
    using assms by (rule applySearchResult_run)
  have v: "value ?e = normalize_newlines (p @ q)"
    by (simp add: focus_def caret_assignments set_value_text)
  have c: "selectionStart ?e = min (length p) (length (normalize_newlines (p @ q)))
         \<and> selectionEnd ?e = min (length p) (length (normalize_newlines (p @ q)))"
    by (simp add: focus_def caret_assignments set_value_text)
  have plain: "13 \<notin> set (p @ q) \<longrightarrow>
                 normalize_newlines (p @ q) = p @ q
               \<and> min (length p) (length (normalize_newlines (p @ q))) = length p"
    by (simp add: normalize_newlines_plain)
  show ?thesis
    using run v c plain by simp
qed

text \<open>
  The scenario of the spec: value \<open>hello\<close>, cursor at 5, result \<open>["hello ", "world"]\<close>;
  the value becomes \<open>hello world\<close> and the caret is at 6.
\<close>

theorem applySearchResult_replaces_witness:
  "\<exists>s'. applySearchResult (\<lambda>before after. Some (before @ ascii '' '', ascii ''world'')) example_state
          = Inr ((), s')
       \<and> value (elements s' 0) = ascii ''hello world''
       \<and> selectionStart (elements s' 0) = 6
       \<and> selectionEnd (elements s' 0) = 6"
proof -
  let ?sr = "\<lambda>before after. Some (before @ ascii '' '', ascii ''world'')"
  have h1: "el example_state = Some 0"
    by (simp add: example_state_def)
  have h2: "?sr (take (selectionEnd (elements example_state 0)) (value (elements example_state 0)))
                (drop (selectionEnd (elements example_state 0)) (value (elements example_state 0)))
              = Some (ascii ''hello '', ascii ''world'')"
    by (simp add: example_state_def example_page_def example_el_def ascii_def)
  have h3: "ascii ''hello '' @ ascii ''world'' = ascii ''hello world''"
    by (simp add: ascii_def)
  have h4: "length (ascii ''hello '') = 6"
    by (simp add: ascii_def)
  have h5: "13 \<notin> set (ascii ''hello '' @ ascii ''world'')"
    by (simp add: ascii_def)
  from applySearchResult_replaces [of example_state 0 ?sr "ascii ''hello ''" "ascii ''world''", OF h1 h2] h5
  show ?thesis
    unfolding h3 h4 by blast
qed

text \<open>
  C1, as the spec has it, fails for a replacement with carriage returns: of the four
  code units CR LF CR LF the textarea keeps LF LF, and the caret is at 2, not at 4.
\<close>

theorem applySearchResult_crlf:
  "crlf_result (ascii ''hello'') [] = Some ([13, 10, 13, 10], [])
   \<and> applySearchResult crlf_result example_state =
       Inr ((), example_state\<lparr>elements := (elements example_state)
              (0 := (elements example_state 0)
                 \<lparr>value := [10, 10], selectionStart := 2, selectionEnd := 2, focused := True\<rparr>)\<rparr>)
   \<and> [10, 10] \<noteq> ([13, 10, 13, 10] @ [] :: jsstring)
   \<and> 2 \<noteq> length ([13, 10, 13, 10] :: jsstring)"
proof -
  let ?e = "elements example_state 0"
  have h1: "el example_state = Some 0"
    by (simp add: example_state_def)
  have h2: "crlf_result (take (selectionEnd ?e) (value ?e)) (drop (selectionEnd ?e) (value ?e))
              = Some ([13, 10, 13, 10], [])"
    by (simp add: crlf_result_def)
  have n: "normalize_newlines ([13, 10, 13, 10] @ []) = [10, 10]"
    by simp
  have old: "value ?e \<noteq> [10, 10]"
    by (simp add: example_state_def example_el_def ascii_def)
  have v: "set_value ([13, 10, 13, 10] @ []) ?e
             = ?e\<lparr>value := [10, 10], selectionStart := 2, selectionEnd := 2\<rparr>"
    unfolding set_value_def Let_def n using old by simp
  have c1: "set_selectionEnd (length [13, 10, 13, 10 :: code_unit])
              (?e\<lparr>value := [10, 10], selectionStart := 2, selectionEnd := 2\<rparr>)
             = ?e\<lparr>value := [10, 10], selectionStart := 2, selectionEnd := 2\<rparr>"
    by (simp add: set_selectionEnd_def setSelectionRange_def)
  have c2: "set_selectionStart (length [13, 10, 13, 10 :: code_unit])
              (?e\<lparr>value := [10, 10], selectionStart := 2, selectionEnd := 2\<rparr>)
             = ?e\<lparr>value := [10, 10], selectionStart := 2, selectionEnd := 2\<rparr>"
    by (simp add: set_selectionStart_def setSelectionRange_def)
  have run: "applySearchResult crlf_result example_state =
       Inr ((), example_state\<lparr>elements := (elements example_state)
              (0 := (elements example_state 0)
                 \<lparr>value := [10, 10], selectionStart := 2, selectionEnd := 2, focused := True\<rparr>)\<rparr>)"
    unfolding applySearchResult_run [of example_state 0 crlf_result "[13, 10, 13, 10]" "[]", OF h1 h2]
      v c1 c2 focus_def by simp
  show ?thesis
    using run by (simp add: crlf_result_def)
qed

text \<open>
  C3: \<open>applySearchResult\<close> always ends with the element focused; when \<open>replace\<close>
  returns nothing, giving the focus is all it does, so the value, \<open>selectionStart\<close>
  and \<open>selectionEnd\<close> of the element are what they were.
\<close>

theorem applySearchResult_declined_focus:
  assumes "el s = Some r"
  shows "\<exists>s'. applySearchResult searchResult s = Inr ((), s')
           \<and> focused (elements s' r)
           \<and> (searchResult (take (selectionEnd (elements s r)) (value (elements s r)))
                            (drop (selectionEnd (elements s r)) (value (elements s r))) = None
                \<longrightarrow> s' = update_el r focus s
                  \<and> value (elements s' r) = value (elements s r)
                  \<and> selectionStart (elements s' r) = selectionStart (elements s r)
                  \<and> selectionEnd (elements s' r) = selectionEnd (elements s r))"
  using assms
  by (auto simp add: applySearchResult_def cursor_texts update_el_def focus_def
      split: option.splits)

theorem applySearchResult_declined_focus_witness:
  "\<exists>s'. applySearchResult (\<lambda>before after. None) example_state = Inr ((), s')
       \<and> focused (elements s' 0)
       \<and> value (elements s' 0) = ascii ''hello''
       \<and> selectionStart (elements s' 0) = 2
       \<and> selectionEnd (elements s' 0) = 5"
proof -
  have h1: "el example_state = Some 0"
    by (simp add: example_state_def)
  from applySearchResult_declined_focus [OF h1, of "\<lambda>before after. None"] show ?thesis
    by (auto simp add: example_state_def example_page_def example_el_def)
qed

subsection \<open>The position of the cursor\<close>



text \<open>
  C8, as the code has it: \<open>getCursorOffset\<close> decides by the \<open>dir\<close> property of the
  element. When it is \<open>rtl\<close> the method returns \<open>top\<close>, \<open>right\<close> and \<open>lineHeight\<close> with
  \<open>right\<close> the client width of the document root minus \<open>left\<close>, and it returns nothing,
  without throwing, when the document has no root. When it is anything else the
  method returns \<open>top\<close>, \<open>left\<close> and \<open>lineHeight\<close>, whatever direction the text runs in.
\<close>

theorem getCursorOffset_rtl:
  assumes "el s = Some r"
  shows "(dir (elements s r) = ''rtl'' \<longrightarrow>
          getCursorOffset env s =
           (case documentElement env of
              Some root \<Rightarrow>
                Inr (Some (TopRight
                       (top_px (calculateElementOffset env (elements s r)) - scrollTop (elements s r)
                          + top_px (getCaretCoordinates env (elements s r) (selectionEnd (elements s r)))
                          + getLineHeight env (elements s r))
                       (clientWidth root
                          - (left_px (calculateElementOffset env (elements s r)) - scrollLeft (elements s r)
                              + left_px (getCaretCoordinates env (elements s r) (selectionEnd (elements s r)))))
                       (getLineHeight env (elements s r))), s)
            | None \<Rightarrow> Inr (None, s)))
       \<and> (dir (elements s r) \<noteq> ''rtl'' \<longrightarrow>
            (\<exists>t l h. getCursorOffset env s = Inr (Some (TopLeft t l h), s)))"
  using assms
  by (simp add: getCursorOffset_def getElScroll_def getCursorPosition_def Let_def
      split: option.splits)

theorem getCursorOffset_rtl_witness:
  "getCursorOffset example_env (update_el 0 (\<lambda>e. e\<lparr>dir := ''rtl''\<rparr>) example_state)
     = Inr (Some (TopRight 94 934 20), update_el 0 (\<lambda>e. e\<lparr>dir := ''rtl''\<rparr>) example_state)
   \<and> getCursorOffset (example_env\<lparr>documentElement := None\<rparr>)
       (update_el 0 (\<lambda>e. e\<lparr>dir := ''rtl''\<rparr>) example_state)
     = Inr (None, update_el 0 (\<lambda>e. e\<lparr>dir := ''rtl''\<rparr>) example_state)
   \<and> (\<exists>t l h. getCursorOffset example_env (update_el 0 (\<lambda>e. e\<lparr>dir := ''auto''\<rparr>) example_state)
         = Inr (Some (TopLeft t l h), update_el 0 (\<lambda>e. e\<lparr>dir := ''auto''\<rparr>) example_state))"
proof -
  let ?s = "update_el 0 (\<lambda>e. e\<lparr>dir := ''rtl''\<rparr>) example_state"
  let ?a = "update_el 0 (\<lambda>e. e\<lparr>dir := ''auto''\<rparr>) example_state"
  have h1: "el ?s = Some 0"
    by (simp add: update_el_def example_state_def)
  have h2: "dir (elements ?s 0) = ''rtl''"
    by (simp add: update_el_def)
  have h3: "el ?a = Some 0"
    by (simp add: update_el_def example_state_def)
  have h4: "dir (elements ?a 0) \<noteq> ''rtl''"
    by (simp add: update_el_def)
  from getCursorOffset_rtl [OF h1, of example_env]
    getCursorOffset_rtl [OF h1, of "example_env\<lparr>documentElement := None\<rparr>"]
    getCursorOffset_rtl [OF h3, of example_env] h2 h4
  show ?thesis
    by (simp add: example_env_def update_el_def example_state_def example_page_def example_el_def)
qed

text \<open>
  C8, as the spec has it, fails: the text of this element runs right to left, its
  \<open>dir\<close> property is not \<open>rtl\<close>, and the method returns \<open>left\<close>, not \<open>right\<close>.
\<close>

theorem getCursorOffset_rtl_inherited:
  "direction (elements example_rtl_inherited 0) = Rtl
   \<and> getCursorOffset example_env example_rtl_inherited
       = Inr (Some (TopLeft 94 90 20), example_rtl_inherited)"
  by (simp add: getCursorOffset_def getElScroll_def getCursorPosition_def Let_def
      example_rtl_inherited_def example_env_def example_state_def example_el_def)

text \<open>
  C10: on a \<open>Textarea\<close> that holds its element, \<open>getBeforeCursor\<close>, \<open>getAfterCursor\<close>
  and \<open>getCursorOffset\<close> return with the state they were called in: the value, the
  selection and every other field of every element are untouched.
\<close>

theorem reads_leave_state:
  assumes "el s = Some r"
  shows "(\<exists>b. getBeforeCursor s = Inr (b, s))
       \<and> (\<exists>a. getAfterCursor s = Inr (a, s))
       \<and> (\<exists>c. getCursorOffset env s = Inr (c, s))"
  using assms
  by (simp add: getBeforeCursor_def getAfterCursor_def getCursorOffset_def getElScroll_def
      getCursorPosition_def Let_def split: option.splits)

theorem reads_leave_state_witness:
  "(\<exists>b. getBeforeCursor example_state = Inr (b, example_state))
   \<and> (\<exists>a. getAfterCursor example_state = Inr (a, example_state))
   \<and> (\<exists>c. getCursorOffset example_env example_state = Inr (c, example_state))"
proof -
  have h1: "el example_state = Some 0"
    by (simp add: example_state_def)
  from reads_leave_state [OF h1] show ?thesis .
qed

subsection \<open>Key events\<close>

text \<open>
  C4: on a keydown whose code is \<open>UP\<close> or \<open>DOWN\<close> the adapter emits \<open>move\<close> with that
  code, on \<open>ENTER\<close> it emits \<open>enter\<close>, on \<open>ESC\<close> it emits \<open>esc\<close>, and on any other code it
  emits nothing and leaves the event alone; where it emits, it calls
  \<open>preventDefault()\<close> on the native event exactly when the listeners have prevented
  the default of the notification.
\<close>

theorem onKeydown_notifies:
  assumes "getCode env (key e) = code"
  shows "(code = ''UP'' \<or> code = ''DOWN'' \<longrightarrow>
            onKeydown env e s =
              (if handled env (Move code) then preventDefault e else e,
               s\<lparr>emitted := emitted s @ [Move code]\<rparr>))
       \<and> (code = ''ENTER'' \<longrightarrow>
            onKeydown env e s =
              (if handled env Enter then preventDefault e else e,
               s\<lparr>emitted := emitted s @ [Enter]\<rparr>))
       \<and> (code = ''ESC'' \<longrightarrow>
            onKeydown env e s =
              (if handled env Esc then preventDefault e else e,
               s\<lparr>emitted := emitted s @ [Esc]\<rparr>))
       \<and> (code \<notin> {''UP'', ''DOWN'', ''ENTER'', ''ESC''} \<longrightarrow> onKeydown env e s = (e, s))"
  using assms
  by (simp add: onKeydown_def emitMoveEvent_def emitEnterEvent_def emitEscEvent_def emit_effect)

theorem onKeydown_notifies_witness:
  "onKeydown example_env \<lparr>key = 38, canceled = False\<rparr> example_state
     = (\<lparr>key = 38, canceled = True\<rparr>, example_state\<lparr>emitted := [Move ''UP'']\<rparr>)
   \<and> onKeydown (example_env\<lparr>handled := (\<lambda>n. False)\<rparr>) \<lparr>key = 40, canceled = False\<rparr> example_state
     = (\<lparr>key = 40, canceled = False\<rparr>, example_state\<lparr>emitted := [Move ''DOWN'']\<rparr>)
   \<and> onKeydown example_env \<lparr>key = 13, canceled = False\<rparr> example_state
     = (\<lparr>key = 13, canceled = True\<rparr>, example_state\<lparr>emitted := [Enter]\<rparr>)
   \<and> onKeydown example_env \<lparr>key = 27, canceled = False\<rparr> example_state
     = (\<lparr>key = 27, canceled = True\<rparr>, example_state\<lparr>emitted := [Esc]\<rparr>)
   \<and> onKeydown example_env \<lparr>key = 65, canceled = False\<rparr> example_state
     = (\<lparr>key = 65, canceled = False\<rparr>, example_state)"
proof -
  have up: "getCode example_env (key \<lparr>key = 38, canceled = False\<rparr>) = ''UP''"
    by (simp add: example_env_def)
  have down: "getCode (example_env\<lparr>handled := (\<lambda>n. False)\<rparr>) (key \<lparr>key = 40, canceled = False\<rparr>) = ''DOWN''"
    by (simp add: example_env_def)
  have enter: "getCode example_env (key \<lparr>key = 13, canceled = False\<rparr>) = ''ENTER''"
    by (simp add: example_env_def)
  have esc: "getCode example_env (key \<lparr>key = 27, canceled = False\<rparr>) = ''ESC''"
    by (simp add: example_env_def)
  have other: "getCode example_env (key \<lparr>key = 65, canceled = False\<rparr>) = ''OTHER''"
    by (simp add: example_env_def)
  have hd: "handled example_env (Move ''UP'') \<and> handled example_env Enter \<and> handled example_env Esc"
    by (simp add: example_env_def)
  have em: "emitted example_state = []"
    by (simp add: example_state_def example_page_def)
  show ?thesis
    using onKeydown_notifies [OF up, of example_state]
      onKeydown_notifies [OF down, of example_state]
      onKeydown_notifies [OF enter, of example_state]
      onKeydown_notifies [OF esc, of example_state]
      onKeydown_notifies [OF other, of example_state]
    by (simp add: hd em preventDefault_def)
qed

text \<open>
  C9: on a keyup the adapter emits one \<open>change\<close> when the code is \<open>BS\<close> and \<open>isIE9\<close> is
  set, and otherwise does nothing; so the notifications grow if and only if both
  hold. The native event is never touched.
\<close>

theorem onKeyup_notifies:
  "onKeyup env e s =
     (e, if isIE9 s \<and> getCode env (key e) = ''BS'' then s\<lparr>emitted := emitted s @ [Change]\<rparr> else s)
   \<and> (emitted (snd (onKeyup env e s)) \<noteq> emitted s) = (isIE9 s \<and> getCode env (key e) = ''BS'')"
  by (simp add: onKeyup_def emitChangeEvent_def emit_effect)

theorem onKeyup_notifies_witness:
  "onKeyup example_env \<lparr>key = 8, canceled = False\<rparr> (example_state\<lparr>isIE9 := True\<rparr>)
     = (\<lparr>key = 8, canceled = False\<rparr>, example_state\<lparr>isIE9 := True, emitted := [Change]\<rparr>)
   \<and> onKeyup example_env \<lparr>key = 8, canceled = False\<rparr> example_state
     = (\<lparr>key = 8, canceled = False\<rparr>, example_state)
   \<and> onKeyup example_env \<lparr>key = 65, canceled = False\<rparr> (example_state\<lparr>isIE9 := True\<rparr>)
     = (\<lparr>key = 65, canceled = False\<rparr>, example_state\<lparr>isIE9 := True\<rparr>)"
  using onKeyup_notifies [of example_env "\<lparr>key = 8, canceled = False\<rparr>" "example_state\<lparr>isIE9 := True\<rparr>"]
    onKeyup_notifies [of example_env "\<lparr>key = 8, canceled = False\<rparr>" example_state]
    onKeyup_notifies [of example_env "\<lparr>key = 65, canceled = False\<rparr>" "example_state\<lparr>isIE9 := True\<rparr>"]
  by (simp add: example_env_def example_state_def example_page_def)

subsection \<open>Teardown\<close>

lemma invoke_keeps:
  "elements (snd (invoke env h e s)) = elements s
   \<and> el (snd (invoke env h e s)) = el s
   \<and> isIE9 (snd (invoke env h e s)) = isIE9 s"
  by (simp add: invoke_def onInput_def onKeydown_def onKeyup_def emitChangeEvent_def
      emitMoveEvent_def emitEnterEvent_def emitEscEvent_def emit_def Let_def
      split: listener.splits callback.splits)

lemma invoke_foreign: "invoke env (Foreign n) e s = (e, s)"
  by (simp add: invoke_def)

lemma foldl_invoke_keeps:
  "elements (snd (foldl (\<lambda>(e1, s1) h. invoke env h e1 s1) (e, s) hs)) = elements s
   \<and> el (snd (foldl (\<lambda>(e1, s1) h. invoke env h e1 s1) (e, s) hs)) = el s"
proof (induction hs arbitrary: e s)
  case Nil
  show ?case by simp
next
  case (Cons h hs)
  obtain e2 s2 where st: "invoke env h e s = (e2, s2)"
    by (cases "invoke env h e s")
  with invoke_keeps [of env h e s] have "elements s2 = elements s" "el s2 = el s"
    by simp_all
  with Cons.IH [of e2 s2] st show ?case
    by simp
qed

lemma foldl_invoke_foreign:
  "\<forall>h \<in> set hs. \<forall>cb. h \<noteq> Bound cb \<Longrightarrow> foldl (\<lambda>(e1, s1) h. invoke env h e1 s1) (e, s) hs = (e, s)"
proof (induction hs)
  case Nil
  show ?case by simp
next
  case (Cons h hs)
  then obtain n where "h = Foreign n"
    by (cases h) auto
  with Cons show ?case
    by (simp add: invoke_foreign)
qed

lemma dispatchEvent_keeps:
  "elements (snd (dispatchEvent env r ty e s)) = elements s
   \<and> el (snd (dispatchEvent env r ty e s)) = el s"
  unfolding dispatchEvent_def by (rule foldl_invoke_keeps)

lemma dispatchAll_keeps:
  "elements (dispatchAll env r evs s) = elements s \<and> el (dispatchAll env r evs s) = el s"
proof (induction evs arbitrary: s)
  case Nil
  show ?case by (simp add: dispatchAll_def)
next
  case (Cons ev evs)
  obtain ty e where ev: "ev = (ty, e)"
    by (cases ev)
  have "dispatchAll env r (ev # evs) s = dispatchAll env r evs (snd (dispatchEvent env r ty e s))"
    by (simp add: dispatchAll_def ev)
  with Cons.IH [of "snd (dispatchEvent env r ty e s)"] dispatchEvent_keeps [of env r ty e s]
  show ?case by simp
qed

lemma dispatchEvent_unbound:
  assumes "\<forall>ty cb. (ty, Bound cb) \<notin> set (listeners (elements s r))"
  shows "dispatchEvent env r ty e s = (e, s)"
  unfolding dispatchEvent_def
proof (rule foldl_invoke_foreign)
  show "\<forall>h \<in> set (map snd (filter (\<lambda>(t, h). t = ty) (listeners (elements s r)))). \<forall>cb. h \<noteq> Bound cb"
    using assms by auto
qed

lemma dispatchAll_unbound:
  assumes "\<forall>ty cb. (ty, Bound cb) \<notin> set (listeners (elements s r))"
  shows "dispatchAll env r evs s = s"
proof (induction evs)
  case Nil
  show ?case by (simp add: dispatchAll_def)
next
  case (Cons ev evs)
  obtain ty e where ev: "ev = (ty, e)"
    by (cases ev)
  have "dispatchAll env r (ev # evs) s = dispatchAll env r evs (snd (dispatchEvent env r ty e s))"
    by (simp add: dispatchAll_def ev)
  with Cons.IH dispatchEvent_unbound [OF assms, of env ty e] show ?case
    by simp
qed

lemma constructor_listens:
  assumes "\<forall>ty cb. (ty, Bound cb) \<notin> set (listeners (elements s0 r))"
  shows "\<exists>s1. constructor env r s0 = Inr ((), s1) \<and> el s1 = Some r
           \<and> listeners (elements s1 r) =
               listeners (elements s0 r)
                 @ [(''input'', Bound OnInput), (''keydown'', Bound OnKeydown), (''keyup'', Bound OnKeyup)]"
  using assms
  by (simp add: constructor_def startListening_def update_el_def addEventListener_def)

lemma finalize_unlistens:
  assumes "el s = Some r"
    and "listeners (elements s r) =
           ls @ [(''input'', Bound OnInput), (''keydown'', Bound OnKeydown), (''keyup'', Bound OnKeyup)]"
    and "\<forall>ty cb. (ty, Bound cb) \<notin> set ls"
  shows "\<exists>s1. finalize s = Inr ((), s1) \<and> el s1 = None \<and> listeners (elements s1 r) = ls"
  using assms
  by (simp add: finalize_def super_finalize_def stopListening_def update_el_def
      removeEventListener_def remove1_append)

text \<open>
  C5: construct a \<open>Textarea\<close> on an element on which none of its bound callbacks is
  registered yet, let any native events \<open>before\<close> happen, and call \<open>finalize\<close>. Both
  calls return, the element reference is gone, an input, keydown or keyup event
  dispatched on the element afterwards leaves the event and the state as they are,
  and no sequence \<open>after\<close> of native events adds a notification.
\<close>

theorem no_notification_after_finalize:
  assumes "\<forall>ty cb. (ty, Bound cb) \<notin> set (listeners (elements s0 r))"
  shows "\<exists>s1 s3. constructor env r s0 = Inr ((), s1)
           \<and> finalize (dispatchAll env r before s1) = Inr ((), s3)
           \<and> el s3 = None
           \<and> (\<forall>ty e. ty \<in> {''input'', ''keydown'', ''keyup''} \<longrightarrow> dispatchEvent env r ty e s3 = (e, s3))
           \<and> emitted (dispatchAll env r after s3) = emitted s3"
proof -
  from constructor_listens [OF assms] obtain s1 where
    c: "constructor env r s0 = Inr ((), s1)" and e1: "el s1 = Some r"
    and l1: "listeners (elements s1 r) =
               listeners (elements s0 r)
                 @ [(''input'', Bound OnInput), (''keydown'', Bound OnKeydown), (''keyup'', Bound OnKeyup)]"
    by blast
  let ?s2 = "dispatchAll env r before s1"
  have e2: "el ?s2 = Some r" and l2: "listeners (elements ?s2 r) = listeners (elements s1 r)"
    using dispatchAll_keeps [of env r before s1] e1 by simp_all
  from finalize_unlistens [OF e2 l2 [unfolded l1] assms] obtain s3 where
    f: "finalize ?s2 = Inr ((), s3)" and e3: "el s3 = None"
    and l3: "listeners (elements s3 r) = listeners (elements s0 r)"
    by blast
  have u: "\<forall>ty cb. (ty, Bound cb) \<notin> set (listeners (elements s3 r))"
    using assms l3 by simp
  have "\<forall>ty e. dispatchEvent env r ty e s3 = (e, s3)"
    by (simp add: dispatchEvent_unbound [OF u])
  moreover have "dispatchAll env r after s3 = s3"
    by (rule dispatchAll_unbound [OF u])
  ultimately show ?thesis
    using c f e3 by simp
qed

theorem no_notification_after_finalize_witness:
  "andThen (andThen (constructor example_env 0 example_page)
       (\<lambda>s. Inr ((), dispatchAll example_env 0 [(''keydown'', \<lparr>key = 13, canceled = False\<rparr>)] s)))
     finalize
     = Inr ((), example_page\<lparr>emitted := [Enter]\<rparr>)
   \<and> emitted (dispatchAll example_env 0
        [(''input'', \<lparr>key = 0, canceled = False\<rparr>), (''keydown'', \<lparr>key = 13, canceled = False\<rparr>),
         (''keyup'', \<lparr>key = 8, canceled = False\<rparr>)]
        (example_page\<lparr>emitted := [Enter]\<rparr>)) = [Enter]"
proof -
  let ?before = "[(''keydown'', \<lparr>key = 13::nat, canceled = False\<rparr>)]"
  let ?after = "[(''input'', \<lparr>key = 0::nat, canceled = False\<rparr>), (''keydown'', \<lparr>key = 13, canceled = False\<rparr>),
         (''keyup'', \<lparr>key = 8, canceled = False\<rparr>)]"
  let ?s1 = "update_el 0 (\<lambda>e. e\<lparr>listeners := listeners e @ [(''input'', Bound OnInput),
               (''keydown'', Bound OnKeydown), (''keyup'', Bound OnKeyup)]\<rparr>) (example_page\<lparr>el := Some 0\<rparr>)"
  have h: "\<forall>ty cb. (ty, Bound cb) \<notin> set (listeners (elements example_page 0))"
    by (simp add: example_page_def example_el_def)
  have c: "constructor example_env 0 example_page = Inr ((), ?s1)"
    by (simp add: constructor_def startListening_def update_el_def addEventListener_def
        example_page_def example_el_def example_env_def)
  have d: "dispatchAll example_env 0 ?before ?s1 = ?s1\<lparr>emitted := [Enter]\<rparr>"
    by (simp add: dispatchAll_def dispatchEvent_def invoke_def onKeydown_def emitEnterEvent_def
        emit_def update_el_def example_page_def example_el_def example_env_def)
  have f: "finalize (?s1\<lparr>emitted := [Enter]\<rparr>) = Inr ((), example_page\<lparr>emitted := [Enter]\<rparr>)"
    by (simp add: finalize_def super_finalize_def stopListening_def update_el_def
        removeEventListener_def example_page_def example_el_def fun_eq_iff)
  from no_notification_after_finalize [OF h, of example_env ?before ?after]
  have "emitted (dispatchAll example_env 0 ?after (example_page\<lparr>emitted := [Enter]\<rparr>)) = [Enter]"
    by (simp add: c d f)
  then show ?thesis
    by (simp add: andThen_def c d f)
qed

text \<open>
  C6, as the code has it: the first \<open>finalize\<close> on a \<open>Textarea\<close> that holds its element
  returns, having removed the three registrations and released the element; a second
  \<open>finalize\<close> throws a \<open>TypeError\<close>, because \<open>stopListening\<close> reads
  \<open>removeEventListener\<close> from the deleted \<open>this.el\<close>, and the state at the throw is the
  state the first call left: nothing is detached a second time.
\<close>

theorem finalize_once:
  assumes "el s = Some r"
  shows "\<exists>s1. finalize s = Inr ((), s1)
           \<and> el s1 = None
           \<and> listeners (elements s1 r) =
               remove1 (''keyup'', Bound OnKeyup)
                 (remove1 (''keydown'', Bound OnKeydown)
                   (remove1 (''input'', Bound OnInput) (listeners (elements s r))))
           \<and> finalize s1 = Inl (TypeError, s1)"
  using assms
  by (simp add: finalize_def super_finalize_def stopListening_def update_el_def
      removeEventListener_def)

theorem finalize_once_witness:
  "\<exists>s1. finalize example_state = Inr ((), s1)
       \<and> el s1 = None
       \<and> listeners (elements s1 0) = [(''click'', Foreign 0)]
       \<and> finalize s1 = Inl (TypeError, s1)"
proof -
  have h1: "el example_state = Some 0"
    by (simp add: example_state_def)
  from finalize_once [OF h1] show ?thesis
    by (simp add: example_state_def example_page_def example_el_def)
qed

text \<open>
  C6, as the spec has it, fails: \<open>new Textarea(el).finalize()\<close> returns and leaves
  the page as it was, and calling \<open>finalize()\<close> on it once more throws.
\<close>

theorem finalize_twice_throws:
  "andThen (constructor example_env 0 example_page) finalize = Inr ((), example_page)
   \<and> andThen (andThen (constructor example_env 0 example_page) finalize) finalize
       = Inl (TypeError, example_page)"
  by (simp add: andThen_def constructor_def startListening_def finalize_def super_finalize_def
      stopListening_def update_el_def addEventListener_def removeEventListener_def
      example_page_def example_el_def example_env_def fun_eq_iff)

end
